theory Spec2Isabelle
  imports Complex_Main "HOL-Library.Multiset"
begin

section \<open>Python values used by the program\<close>

text \<open>
  A Python \<open>str\<close> is modelled by a HOL \<open>string\<close> holding its UTF-8 bytes; the
  non-ASCII characters of the program's literals are written out byte by byte below.
  Python counts code points where HOL counts bytes, so the one place where the program
  measures a string (the \<open>:<35\<close> padding of the report labels) goes through
  \<open>py_len\<close>, which skips the continuation bytes.
\<close>

abbreviation (input) u_check :: string where "u_check \<equiv> [CHR 0xE2, CHR 0x9C, CHR 0x93]"
abbreviation (input) u_cross :: string where "u_cross \<equiv> [CHR 0xE2, CHR 0x9C, CHR 0x97]"
abbreviation (input) u_ok :: string where "u_ok \<equiv> [CHR 0xE2, CHR 0x9C, CHR 0x85]"
abbreviation (input) u_no :: string where "u_no \<equiv> [CHR 0xE2, CHR 0x9D, CHR 0x8C]"
abbreviation (input) u_warn :: string where
  "u_warn \<equiv> [CHR 0xE2, CHR 0x9A, CHR 0xA0, CHR 0xEF, CHR 0xB8, CHR 0x8F]"
abbreviation (input) u_retry :: string where "u_retry \<equiv> [CHR 0xF0, CHR 0x9F, CHR 0x94, CHR 0x84]"
abbreviation (input) u_chart :: string where "u_chart \<equiv> [CHR 0xF0, CHR 0x9F, CHR 0x93, CHR 0x8A]"
abbreviation (input) u_clock :: string where
  "u_clock \<equiv> [CHR 0xE2, CHR 0x8F, CHR 0xB1, CHR 0xEF, CHR 0xB8, CHR 0x8F]"
abbreviation (input) u_arrow :: string where "u_arrow \<equiv> [CHR 0xE2, CHR 0x86, CHR 0x92]"
abbreviation (input) u_bullet :: string where "u_bullet \<equiv> [CHR 0xE2, CHR 0x80, CHR 0xA2]"
abbreviation (input) u_branch :: string where
  "u_branch \<equiv> [CHR 0xE2, CHR 0x94, CHR 0x94, CHR 0xE2, CHR 0x94, CHR 0x80]"
abbreviation (input) u_middot :: string where "u_middot \<equiv> [CHR 0xC2, CHR 0xB7]"
abbreviation (input) a_grave :: string where "a_grave \<equiv> [CHR 0xC3, CHR 0xA0]"
abbreviation (input) e_acute :: string where "e_acute \<equiv> [CHR 0xC3, CHR 0xA9]"
abbreviation (input) o_grave :: string where "o_grave \<equiv> [CHR 0xC3, CHR 0xB2]"
abbreviation (input) o_acute :: string where "o_acute \<equiv> [CHR 0xC3, CHR 0xB3]"
abbreviation (input) E_ACUTE :: string where "E_ACUTE \<equiv> [CHR 0xC3, CHR 0x89]"
abbreviation (input) E_GRAVE :: string where "E_GRAVE \<equiv> [CHR 0xC3, CHR 0x88]"
abbreviation (input) O_ACUTE :: string where "O_ACUTE \<equiv> [CHR 0xC3, CHR 0x93]"

definition is_continuation :: "char \<Rightarrow> bool" where
  "is_continuation c = (128 \<le> (of_char c :: nat) \<and> (of_char c :: nat) < 192)"

definition py_len :: "string \<Rightarrow> nat" where
  "py_len s = length (filter (\<lambda>c. \<not> is_continuation c) s)"

text \<open>The format specification \<open>:<w\<close>: pad with spaces on the right up to width \<open>w\<close>.\<close>

definition ljust :: "nat \<Rightarrow> string \<Rightarrow> string" where
  "ljust w s = s @ replicate (w - py_len s) CHR '' ''"

text \<open>\<open>str(n)\<close> for an integer: decimal digits, with a minus sign when negative.\<close>

definition digit :: "nat \<Rightarrow> char" where
  "digit d = ''0123456789'' ! d"

fun str_nat :: "nat \<Rightarrow> string" where
  "str_nat n = (if n < 10 then [digit n] else str_nat (n div 10) @ [digit (n mod 10)])"

declare str_nat.simps [simp del]

definition str_int :: "int \<Rightarrow> string" where
  "str_int i = (if i < 0 then CHR ''-'' # str_nat (nat (- i)) else str_nat (nat i))"

text \<open>\<open>"\n".join(lines)\<close>.\<close>

fun join_lines :: "string list \<Rightarrow> string" where
  "join_lines [] = []"
| "join_lines [l] = l"
| "join_lines (l # m # ls) = l @ CHR 0x0A # join_lines (m # ls)"

section \<open>conversion\_report.py\<close>

text \<open>
  The report of one batch run. Clock readings are Python floats; a finite float is a
  rational number, and the model computes with them exactly.
\<close>

record ConversionReport =
  total_files :: int
  successful_conversions :: "string list"
  failed_conversions :: "(string \<times> string) list"
  retried_files :: "(string \<times> int) list"
  start_time :: "rat option"
  end_time :: "rat option"

text \<open>\<open>ConversionReport.__init__\<close>.\<close>

definition init :: ConversionReport where
  "init = \<lparr>total_files = 0, successful_conversions = [], failed_conversions = [],
           retried_files = [], start_time = None, end_time = None\<rparr>"

definition add_success :: "string \<Rightarrow> ConversionReport \<Rightarrow> ConversionReport" where
  "add_success filename r =
     r\<lparr>successful_conversions := successful_conversions r @ [filename]\<rparr>"

definition add_failure :: "string \<Rightarrow> string \<Rightarrow> ConversionReport \<Rightarrow> ConversionReport" where
  "add_failure filename error r =
     r\<lparr>failed_conversions := failed_conversions r @ [(filename, error)]\<rparr>"

definition add_retry :: "string \<Rightarrow> int \<Rightarrow> ConversionReport \<Rightarrow> ConversionReport" where
  "add_retry filename attempts r =
     r\<lparr>retried_files := retried_files r @ [(filename, attempts)]\<rparr>"

text \<open>
  The dictionary returned by \<open>get_summary\<close>, one field per key. The source stores the
  four counts as \<open>float(...)\<close> and \<open>generate_detailed_report\<close> reads them back with
  \<open>int(...)\<close>; that round trip returns the integer it was given up to magnitude
  \<open>2^53\<close>, and the fields hold the integers.
\<close>

record summary =
  s_total :: int
  s_success :: int
  s_failed :: int
  s_retried :: int
  s_duration :: rat

text \<open>
  \<open>if self.start_time and self.end_time\<close>: a reading counts when it is neither
  \<open>None\<close> nor \<open>0.0\<close>.
\<close>

definition get_summary :: "ConversionReport \<Rightarrow> summary" where
  "get_summary r =
     \<lparr>s_total = total_files r,
      s_success = int (length (successful_conversions r)),
      s_failed = int (length (failed_conversions r)),
      s_retried = int (length (retried_files r)),
      s_duration =
        (case (start_time r, end_time r) of
           (Some s, Some e) \<Rightarrow> if s \<noteq> 0 \<and> e \<noteq> 0 then max 0 (e - s) else 0
         | _ \<Rightarrow> 0)\<rparr>"

text \<open>
  \<open>generate_detailed_report\<close>. The two percentages are float computations,
  \<open>(success / total) * 100\<close> printed with \<open>:.1f\<close>; the model takes that
  computation as the parameter \<open>pct_1f\<close>, applied to the count and to the divisor
  the source uses, so that every statement below holds whatever the float arithmetic
  yields. \<open>int(duration // 60)\<close> and \<open>int(duration % 60)\<close> are the floors of
  the quotient and of the remainder, the duration being non-negative.
\<close>

definition sep :: string where
  "sep = replicate 72 CHR ''=''"

definition sub :: string where
  "sub = replicate 72 CHR ''-''"

definition full_success_line :: string where
  "full_success_line =
     u_ok @ '' CONVERSI'' @ O_ACUTE @ '' COMPLETADA AMB '' @ E_GRAVE @ ''XIT TOTAL''"

definition partial_success_line :: string where
  "partial_success_line =
     u_warn @ ''  CONVERSI'' @ O_ACUTE @ '' COMPLETADA AMB ALGUNS ERRORS''"

definition total_failure_line :: string where
  "total_failure_line = u_no @ '' NO S'' @ [CHR 0x27] @ ''HA POGUT CONVERTIR CAP FITXER''"

definition summary_section :: "(int \<Rightarrow> int \<Rightarrow> string) \<Rightarrow> ConversionReport \<Rightarrow> string list" where
  "summary_section pct_1f r =
     (let summary = get_summary r;
          total = (if s_total summary = 0 then 1 else s_total summary);
          success = s_success summary;
          failed = s_failed summary;
          retried = s_retried summary;
          duration = s_duration summary;
          duration_min = \<lfloor>duration / 60\<rfloor>;
          duration_sec = \<lfloor>duration - 60 * of_int \<lfloor>duration / 60\<rfloor>\<rfloor>
      in [sep,
          ''INFORME DE CONVERSI'' @ O_ACUTE @ '' DOCX '' @ u_arrow @ '' PDF'',
          sep,
          [],
          u_chart @ '' RESUM GENERAL'',
          sub,
          ljust 35 ''Total de fitxers processats:'' @ '' '' @ str_int total,
          ljust 35 (u_check @ '' Conversions exitoses:'') @ str_int success
            @ '' ('' @ pct_1f success total @ ''%)'',
          ljust 35 (u_cross @ '' Conversions fallides:'') @ str_int failed
            @ '' ('' @ pct_1f failed total @ ''%)'',
          ljust 35 (u_retry @ '' Fitxers amb reintents:'') @ str_int retried,
          ljust 35 (u_clock @ ''  Temps total:'') @ str_int duration_min @ ''m ''
            @ str_int duration_sec @ ''s'',
          []])"

definition retried_section :: "ConversionReport \<Rightarrow> string list" where
  "retried_section r =
     (if retried_files r \<noteq> [] then
        [u_retry @ '' FITXERS RESOLTS DESPR'' @ E_ACUTE @ ''S DE REINTENTS'', sub]
        @ concat (map (\<lambda>(filename, attempts).
            [''  '' @ u_bullet @ '' '' @ filename,
             ''    '' @ u_branch @ '' Resolt despr'' @ e_acute @ ''s de '' @ str_int attempts
               @ '' intent(s)'']) (retried_files r))
        @ [[]]
      else [])"

definition converted_section :: "ConversionReport \<Rightarrow> string list" where
  "converted_section r =
     (if s_success (get_summary r) \<noteq> 0 \<and> retried_files r = [] then
        [u_check @ '' FITXERS CONVERTITS SENSE REINTENTS'', sub]
        @ map (\<lambda>filename. ''  '' @ u_check @ '' '' @ filename)
            (take 10 (successful_conversions r))
        @ (if length (successful_conversions r) > 10 then
             [''  ... i '' @ str_int (int (length (successful_conversions r)) - 10)
                @ '' m'' @ e_acute @ ''s'']
           else [])
        @ [[]]
      else [])"

definition failed_section :: "ConversionReport \<Rightarrow> string list" where
  "failed_section r =
     (if failed_conversions r \<noteq> [] then
        [u_cross @ '' FITXERS AMB ERRORS NO RESOLTS'', sub]
        @ concat (map (\<lambda>(filename, error).
            [''  '' @ u_cross @ '' '' @ filename,
             ''    '' @ u_branch @ '' Error: '' @ error,
             ''    '' @ u_branch @ '' Suggeriments:'',
             ''       '' @ u_bullet @ '' Verifica si el DOCX '' @ e_acute @ ''s corrupte'',
             ''       '' @ u_bullet @ '' Comprova que MS Word estigui instal'' @ u_middot
               @ ''lat'',
             ''       '' @ u_bullet @ '' Obre i desa de nou el DOCX'']) (failed_conversions r))
        @ [[]]
      else [])"

definition verdict_section :: "ConversionReport \<Rightarrow> string list" where
  "verdict_section r =
     (let success = s_success (get_summary r);
          failed = s_failed (get_summary r)
      in [sep,
          if failed = 0 then full_success_line
          else if success > 0 then partial_success_line
          else total_failure_line,
          sep])"

text \<open>The list \<open>lines\<close> at the \<open>return\<close>, and the string returned.\<close>

definition report_lines :: "(int \<Rightarrow> int \<Rightarrow> string) \<Rightarrow> ConversionReport \<Rightarrow> string list" where
  "report_lines pct_1f r =
     summary_section pct_1f r @ retried_section r @ converted_section r
     @ failed_section r @ verdict_section r"

definition generate_detailed_report :: "(int \<Rightarrow> int \<Rightarrow> string) \<Rightarrow> ConversionReport \<Rightarrow> string" where
  "generate_detailed_report pct_1f r = join_lines (report_lines pct_1f r)"

section \<open>docx\_converter.py\<close>

text \<open>
  An exception is its class, as far as the \<open>except\<close> clauses of the program tell
  classes apart, and its \<open>str(exc)\<close>. \<open>OtherException\<close> is any other class
  deriving from \<open>Exception\<close> (\<open>RuntimeError\<close> among them);
  \<open>BaseExceptionOnly\<close> is a class deriving from \<open>BaseException\<close> but not from
  \<open>Exception\<close> (\<open>SystemExit\<close>, \<open>KeyboardInterrupt\<close>, \<open>GeneratorExit\<close>).
\<close>

datatype exn_class = FuturesTimeoutError | ValueError | OtherException | BaseExceptionOnly

datatype exn = Exn (exn_class: exn_class) (exn_str: string)

text \<open>\<open>except (FuturesTimeoutError, ValueError)\<close> and \<open>except Exception\<close>.\<close>

fun timeout_or_value :: "exn_class \<Rightarrow> bool" where
  "timeout_or_value FuturesTimeoutError = True"
| "timeout_or_value ValueError = True"
| "timeout_or_value OtherException = False"
| "timeout_or_value BaseExceptionOnly = False"

fun is_Exception :: "exn_class \<Rightarrow> bool" where
  "is_Exception BaseExceptionOnly = False"
| "is_Exception FuturesTimeoutError = True"
| "is_Exception ValueError = True"
| "is_Exception OtherException = True"

text \<open>
  What lies outside the program. \<open>pathlib\<close> holds what the path operations compute on
  the platform at hand; a \<open>Path\<close> object is modelled by its string. \<open>world\<close> is
  what one call of \<open>convert_single_file\<close> meets: the file-system checks, whether
  the import of \<open>docx2pdf.convert\<close> succeeded, and for each attempt number what the
  two conversion strategies do when they are invoked in that attempt. The strategies
  are taken to finish: \<open>Timed_out\<close> is a call of \<open>convert\<close> that outlasts the
  timeout, so that \<open>fut.result\<close> raises \<open>FuturesTimeoutError\<close> (whose string is
  empty). File-system checks and \<open>print\<close> are taken to return normally.
\<close>

record pathlib =
  path_str :: "string \<Rightarrow> string"
  path_name :: "string \<Rightarrow> string"
  path_stem :: "string \<Rightarrow> string"
  path_join :: "string \<Rightarrow> string \<Rightarrow> string"

datatype convert_outcome =
    Converted bool
  | Convert_raised exn
  | Timed_out

datatype com_outcome =
    Com_saved bool
  | Com_raised exn

record world =
  docx_exists :: bool
  docx_is_file :: bool
  temp_dir_exists :: bool
  convert_imported :: bool
  pdf_leftover :: "int \<Rightarrow> bool"
  docx2pdf :: "int \<Rightarrow> convert_outcome"
  win32com :: "int \<Rightarrow> com_outcome"

text \<open>
  In \<open>Converted b\<close> and \<open>Com_saved b\<close> the flag is the value of
  \<open>pdf_path.exists() and pdf_path.stat().st_size > 0\<close> after the strategy returned.
  The calls the function makes are recorded, in order, as events.
\<close>

datatype event = Unlink int | Docx2pdf int | Win32com int | Sleep int

record DocxConverter =
  max_retries :: int
  timeout :: int
  has_win32 :: bool

text \<open>\<open>convert_with_win32\<close>: every \<open>Exception\<close> of the COM calls is turned into \<open>False\<close>.\<close>

definition convert_with_win32 :: "DocxConverter \<Rightarrow> com_outcome \<Rightarrow> exn + bool" where
  "convert_with_win32 c com =
     (if \<not> has_win32 c then Inr False
      else (case com of
              Com_saved nonempty \<Rightarrow> Inr nonempty
            | Com_raised exc \<Rightarrow> if is_Exception (exn_class exc) then Inr False else Inl exc))"

text \<open>The \<open>try\<close> body of one attempt: the primary strategy and the check of its output.\<close>

definition try_docx2pdf :: "world \<Rightarrow> int \<Rightarrow> (exn + unit) \<times> event list" where
  "try_docx2pdf w attempt =
     (if \<not> convert_imported w then
        (Inl (Exn OtherException
           (''El m'' @ o_grave @ ''dul docx2pdf no est'' @ a_grave @ '' disponible.'')), [])
      else
        (case docx2pdf w attempt of
           Timed_out \<Rightarrow> Inl (Exn FuturesTimeoutError [])
         | Convert_raised exc \<Rightarrow> Inl exc
         | Converted True \<Rightarrow> Inr ()
         | Converted False \<Rightarrow>
             Inl (Exn ValueError (''PDF buit o inexistent despr'' @ e_acute @ ''s de docx2pdf'')),
         [Docx2pdf attempt]))"

text \<open>
  One iteration of the \<open>for\<close> loop up to its handlers: it returns the PDF, leaves
  the function with an exception no handler takes, or falls through to the next
  attempt with \<open>last_error\<close> set.
\<close>

datatype attempt_end = Return_pdf | Fall_through string | Propagate exn

definition attempt_body :: "DocxConverter \<Rightarrow> world \<Rightarrow> int \<Rightarrow> attempt_end \<times> event list" where
  "attempt_body c w attempt =
     (let cleanup = (if pdf_leftover w attempt then [Unlink attempt] else []) in
      case try_docx2pdf w attempt of
        (Inr u, evs) \<Rightarrow> (Return_pdf, cleanup @ evs)
      | (Inl exc, evs) \<Rightarrow>
          if timeout_or_value (exn_class exc) then
            (if has_win32 c \<and> attempt < max_retries c then
               (case convert_with_win32 c (win32com w attempt) of
                  Inr True \<Rightarrow> (Return_pdf, cleanup @ evs @ [Win32com attempt])
                | Inr False \<Rightarrow> (Fall_through (exn_str exc), cleanup @ evs @ [Win32com attempt])
                | Inl exc' \<Rightarrow> (Propagate exc', cleanup @ evs @ [Win32com attempt]))
             else (Fall_through (exn_str exc), cleanup @ evs))
          else if is_Exception (exn_class exc) then (Fall_through (exn_str exc), cleanup @ evs)
          else (Propagate exc, cleanup @ evs))"

text \<open>
  The per-file outcome \<open>(pdf_path, attempts, error)\<close>, and \<open>last_error\<close> inside an
  f-string, where \<open>None\<close> prints as \<open>None\<close>.
\<close>

type_synonym outcome = "string option \<times> int \<times> string option"

definition str_optional :: "string option \<Rightarrow> string" where
  "str_optional x = (case x of None \<Rightarrow> ''None'' | Some s \<Rightarrow> s)"

definition exhausted_message :: "int \<Rightarrow> string option \<Rightarrow> string" where
  "exhausted_message n last_error =
     ''Fallo despr'' @ e_acute @ ''s de '' @ str_int n @ '' intents: '' @ str_optional last_error"

text \<open>
  The loop \<open>for attempt in range(1, self.max_retries + 1)\<close> over the attempts still to
  run, and the \<open>return\<close> after it.
\<close>

fun attempt_loop ::
  "DocxConverter \<Rightarrow> world \<Rightarrow> string \<Rightarrow> int list \<Rightarrow> string option \<Rightarrow> event list
   \<Rightarrow> (exn + outcome) \<times> event list" where
  "attempt_loop c w pdf_path [] last_error tr =
     (Inr (None, max_retries c, Some (exhausted_message (max_retries c) last_error)), tr)"
| "attempt_loop c w pdf_path (attempt # rest) last_error tr =
     (case attempt_body c w attempt of
        (Return_pdf, evs) \<Rightarrow> (Inr (Some pdf_path, attempt, None), tr @ evs)
      | (Propagate exc, evs) \<Rightarrow> (Inl exc, tr @ evs)
      | (Fall_through msg, evs) \<Rightarrow>
          attempt_loop c w pdf_path rest (Some msg)
            (tr @ evs @ (if attempt < max_retries c then [Sleep (min (attempt * 3) 15)] else [])))"

text \<open>
  \<open>convert_single_file\<close>. Its parameters \<open>file_num\<close> and \<open>total_files\<close> are not
  used by the source and are left out.
\<close>

definition convert_single_file ::
  "pathlib \<Rightarrow> DocxConverter \<Rightarrow> world \<Rightarrow> string \<Rightarrow> string \<Rightarrow> (exn + outcome) \<times> event list" where
  "convert_single_file pl c w docx_file temp_dir =
     (let pdf_path = path_join pl temp_dir (path_stem pl docx_file @ ''.pdf'') in
      if \<not> docx_exists w \<or> \<not> docx_is_file w then
        (Inr (None, 0, Some (''El fitxer '' @ path_str pl docx_file @ '' no existeix o no ''
           @ e_acute @ ''s v'' @ a_grave @ ''lid.'')), [])
      else if \<not> temp_dir_exists w then
        (Inr (None, 0, Some (''El directori temporal '' @ temp_dir @ '' no existeix.'')), [])
      else attempt_loop c w pdf_path [1..max_retries c] None [])"

text \<open>
  Ways of speaking about one attempt. The primary strategy fails in attempt \<open>k\<close> when
  the \<open>try\<close> body raises an \<open>Exception\<close>: the module is unavailable, the call
  timed out, the output was empty or missing, or the strategy raised an error. The
  failure leads to the fallback when it is one that the first \<open>except\<close> clause
  takes (a timeout, an empty output, a \<open>ValueError\<close> or timeout error raised by the
  strategy) and the fallback is available and the attempt is not the last.
  \<open>attempt_error\<close> is the string of the exception raised by the \<open>try\<close> body.
\<close>

fun strategy_fails :: "convert_outcome \<Rightarrow> bool" where
  "strategy_fails Timed_out = True"
| "strategy_fails (Converted nonempty) = (\<not> nonempty)"
| "strategy_fails (Convert_raised exc) = is_Exception (exn_class exc)"

fun fails_into_fallback :: "convert_outcome \<Rightarrow> bool" where
  "fails_into_fallback Timed_out = True"
| "fails_into_fallback (Converted nonempty) = (\<not> nonempty)"
| "fails_into_fallback (Convert_raised exc) = timeout_or_value (exn_class exc)"

definition primary_fails :: "world \<Rightarrow> int \<Rightarrow> bool" where
  "primary_fails w k = (if convert_imported w then strategy_fails (docx2pdf w k) else True)"

definition fallback_invoked :: "DocxConverter \<Rightarrow> world \<Rightarrow> int \<Rightarrow> bool" where
  "fallback_invoked c w k =
     (convert_imported w \<and> fails_into_fallback (docx2pdf w k) \<and> has_win32 c
      \<and> k < max_retries c)"

definition attempt_error :: "world \<Rightarrow> int \<Rightarrow> string" where
  "attempt_error w k = (case fst (try_docx2pdf w k) of Inl exc \<Rightarrow> exn_str exc | Inr u \<Rightarrow> [])"

fun is_docx2pdf_call :: "event \<Rightarrow> bool" where
  "is_docx2pdf_call (Docx2pdf k) = True"
| "is_docx2pdf_call (Win32com k) = False"
| "is_docx2pdf_call (Unlink k) = False"
| "is_docx2pdf_call (Sleep n) = False"

fun is_win32com_call :: "event \<Rightarrow> bool" where
  "is_win32com_call (Win32com k) = True"
| "is_win32com_call (Docx2pdf k) = False"
| "is_win32com_call (Unlink k) = False"
| "is_win32com_call (Sleep n) = False"


section \<open>docx\_to\_pdf\_zip\_app.py\<close>

text \<open>
  What \<open>fut.result()\<close> does for a finished task: it returns the outcome of
  \<open>convert_single_file\<close>, or raises what the task raised.
\<close>

datatype task_result = Task_returned outcome | Task_raised exn

text \<open>
  The state the worker thread works on: the report and the counter of the application
  object, and the local list \<open>pdf_files\<close>.
\<close>

record run_state =
  conversion_report :: ConversionReport
  completed_conversions :: int
  pdf_files :: "string list"

text \<open>
  \<open>start_conversion\<close>, once its guards have passed: the state it resets before it
  starts the worker thread, \<open>now\<close> being the reading of \<open>time.time()\<close>.
\<close>

definition start_conversion :: "rat \<Rightarrow> string list \<Rightarrow> run_state" where
  "start_conversion now docx_files =
     \<lparr>conversion_report = init\<lparr>total_files := int (length docx_files), start_time := Some now\<rparr>,
      completed_conversions = 0,
      pdf_files = []\<rparr>"

text \<open>
  The body of the collection loop after the cancellation check, for the future of the
  file \<open>src\<close>. An exception of \<open>fut.result()\<close> that \<open>except Exception\<close> does
  not take leaves the function. The status and progress messages put on the queue do
  not steer the run and are not modelled.
\<close>

definition unknown_error :: string where
  "unknown_error = ''Error desconegut''"

definition record_result :: "pathlib \<Rightarrow> string \<Rightarrow> task_result \<Rightarrow> run_state \<Rightarrow> exn + run_state" where
  "record_result pl src res s =
     (let name = path_name pl src;
          report = conversion_report s
      in case res of
           Task_returned (pdf_path, attempts, error) \<Rightarrow>
             (case pdf_path of
                Some p \<Rightarrow>
                  Inr (s\<lparr>pdf_files := pdf_files s @ [p],
                         conversion_report :=
                           (if attempts > 1 then add_retry name attempts (add_success name report)
                            else add_success name report),
                         completed_conversions := completed_conversions s + 1\<rparr>)
              | None \<Rightarrow>
                  Inr (s\<lparr>conversion_report :=
                           add_failure name
                             (case error of
                                None \<Rightarrow> unknown_error
                              | Some e \<Rightarrow> if e = [] then unknown_error else e) report,
                         completed_conversions := completed_conversions s + 1\<rparr>))
         | Task_raised exc \<Rightarrow>
             if is_Exception (exn_class exc) then
               Inr (s\<lparr>conversion_report := add_failure name (exn_str exc) report,
                      completed_conversions := completed_conversions s + 1\<rparr>)
             else Inl exc)"

text \<open>
  The loop \<open>for fut in as_completed(future_to_file)\<close> over the finished futures
  still to come; \<open>cancel_flag i\<close> is the value of \<open>self.cancel_flag\<close> when the
  program reads it for the \<open>i\<close>-th time.
\<close>

datatype loop_exit = Loop_done | Loop_cancelled | Loop_escaped exn

fun collect_loop ::
  "pathlib \<Rightarrow> (nat \<Rightarrow> bool) \<Rightarrow> nat \<Rightarrow> (string \<times> task_result) list \<Rightarrow> run_state
   \<Rightarrow> run_state \<times> loop_exit" where
  "collect_loop pl cancel_flag i [] s = (s, Loop_done)"
| "collect_loop pl cancel_flag i ((src, res) # futs) s =
     (if cancel_flag i then (s, Loop_cancelled)
      else (case record_result pl src res s of
              Inl exc \<Rightarrow> (s, Loop_escaped exc)
            | Inr s' \<Rightarrow> collect_loop pl cancel_flag (Suc i) futs s'))"

text \<open>
  What one run of the worker thread meets: the order in which the submitted tasks
  finish (task \<open>i\<close> converts \<open>docx_files ! i\<close>), what each task yields, the readings
  of the cancellation flag, what the packaging block does, and the clock at the end.
  Creating the temporary directory and the thread pool is taken to succeed.
\<close>

datatype zip_outcome = Zip_written | Zip_cancelled | Zip_raised exn

record run_env =
  completion_order :: "nat list"
  task_result_of :: "nat \<Rightarrow> task_result"
  cancel_flag :: "nat \<Rightarrow> bool"
  zip_stage :: zip_outcome
  end_clock :: rat

definition futures_done :: "run_env \<Rightarrow> string list \<Rightarrow> (string \<times> task_result) list" where
  "futures_done env docx_files =
     map (\<lambda>i. (docx_files ! i, task_result_of env i)) (completion_order env)"

text \<open>
  How the thread ends: the archive is written; \<open>InterruptedError\<close> for a
  cancellation; the \<open>RuntimeError\<close> raised when \<open>pdf_files\<close> is empty; another
  \<open>Exception\<close> of the packaging block; or an exception that no handler of the
  function takes. All but the last set \<open>end_time\<close> and put a \<open>finished\<close> message
  on the queue.
\<close>

datatype run_exit =
    Finished_ok
  | Cancelled
  | No_files_converted
  | Packaging_failed exn
  | Escaped exn

definition set_end_time :: "rat \<Rightarrow> run_state \<Rightarrow> run_state" where
  "set_end_time now s = s\<lparr>conversion_report := (conversion_report s)\<lparr>end_time := Some now\<rparr>\<rparr>"

definition convert_and_zip_thread ::
  "pathlib \<Rightarrow> run_env \<Rightarrow> string list \<Rightarrow> run_state \<Rightarrow> run_state \<times> run_exit" where
  "convert_and_zip_thread pl env docx_files s0 =
     (case collect_loop pl (cancel_flag env) 0 (futures_done env docx_files) (s0\<lparr>pdf_files := []\<rparr>) of
        (s, Loop_cancelled) \<Rightarrow> (set_end_time (end_clock env) s, Cancelled)
      | (s, Loop_escaped exc) \<Rightarrow> (s, Escaped exc)
      | (s, Loop_done) \<Rightarrow>
          if pdf_files s = [] then (set_end_time (end_clock env) s, No_files_converted)
          else if cancel_flag env (length (futures_done env docx_files)) then
            (set_end_time (end_clock env) s, Cancelled)
          else (case zip_stage env of
                  Zip_written \<Rightarrow> (set_end_time (end_clock env) s, Finished_ok)
                | Zip_cancelled \<Rightarrow> (set_end_time (end_clock env) s, Cancelled)
                | Zip_raised exc \<Rightarrow>
                    if is_Exception (exn_class exc) then
                      (set_end_time (end_clock env) s, Packaging_failed exc)
                    else (s, Escaped exc)))"

text \<open>The payload of the \<open>finished\<close> message: the success flag and the path or error text.\<close>

definition finished_message :: "string \<Rightarrow> run_exit \<Rightarrow> (bool \<times> string) option" where
  "finished_message zip_path ex =
     (case ex of
        Finished_ok \<Rightarrow> Some (True, zip_path)
      | Cancelled \<Rightarrow>
          Some (False, ''Conversi'' @ o_acute @ '' cancel'' @ u_middot @ ''lada per l''
             @ [CHR 0x27] @ ''usuari'')
      | No_files_converted \<Rightarrow>
          Some (False, ''Error durant la conversi'' @ o_acute @ '': No s'' @ [CHR 0x27]
             @ ''ha pogut convertir cap fitxer.'')
      | Packaging_failed exc \<Rightarrow>
          Some (False, ''Error durant la conversi'' @ o_acute @ '': '' @ exn_str exc)
      | Escaped exc \<Rightarrow> None)"

text \<open>
  Ways of speaking about a run: how many outcomes the report holds, and the output
  file a finished task hands over (none when it failed or raised).
\<close>

definition recorded_outcomes :: "run_state \<Rightarrow> nat" where
  "recorded_outcomes s =
     length (successful_conversions (conversion_report s))
     + length (failed_conversions (conversion_report s))"

fun output_of :: "task_result \<Rightarrow> string list" where
  "output_of (Task_returned (Some p, attempts, error)) = [p]"
| "output_of (Task_returned (None, attempts, error)) = []"
| "output_of (Task_raised exc) = []"

section \<open>Sample inputs\<close>

text \<open>
  The path operations on plain file names with one suffix, such as \<open>a.docx\<close>, and a
  directory name without separators, where \<open>pathlib\<close> leaves the string as it is,
  takes the stem up to the dot and joins with a slash.
\<close>

definition sample_paths :: pathlib where
  "sample_paths =
     \<lparr>path_str = (\<lambda>s. s), path_name = (\<lambda>s. s),
      path_stem = takeWhile (\<lambda>ch. ch \<noteq> CHR ''.''), path_join = (\<lambda>d n. d @ ''/'' @ n)\<rparr>"

text \<open>
  A world in which the input file and the temporary directory exist, \<open>docx2pdf\<close> was
  imported and no PDF is left over, with the given behaviour of the two strategies.
\<close>

definition sample_world :: "(int \<Rightarrow> convert_outcome) \<Rightarrow> (int \<Rightarrow> com_outcome) \<Rightarrow> world" where
  "sample_world primary fallback =
     \<lparr>docx_exists = True, docx_is_file = True, temp_dir_exists = True, convert_imported = True,
      pdf_leftover = (\<lambda>k. False), docx2pdf = primary, win32com = fallback\<rparr>"

definition sample_converter :: "int \<Rightarrow> bool \<Rightarrow> DocxConverter" where
  "sample_converter n win32 = \<lparr>max_retries = n, timeout = 600, has_win32 = win32\<rparr>"

text \<open>
  The percentages Python prints for the counts used in the examples, each exact in
  binary floating point: none of a positive total is \<open>0.0\<close>, all of it is
  \<open>100.0\<close>, half of it is \<open>50.0\<close>.
\<close>

definition sample_pct :: "int \<Rightarrow> int \<Rightarrow> string" where
  "sample_pct x n =
     (if x = 0 \<and> 0 < n then ''0.0''
      else if x = n \<and> 0 < n then ''100.0''
      else if 2 * x = n \<and> 0 < n then ''50.0''
      else [])"

text \<open>A run in which the tasks finish in the order given and nobody cancels.\<close>

definition sample_env :: "nat list \<Rightarrow> (nat \<Rightarrow> task_result) \<Rightarrow> run_env" where
  "sample_env order results =
     \<lparr>completion_order = order, task_result_of = results, cancel_flag = (\<lambda>i. False),
      zip_stage = Zip_written, end_clock = 1700000090\<rparr>"

text \<open>
  Two finished tasks: the first file converted at the third attempt, the second one
  given up after five.
\<close>

definition sample_results :: "nat \<Rightarrow> task_result" where
  "sample_results i =
     (if i = 0 then Task_returned (Some ''tmp/a.pdf'', 3, None)
      else Task_returned (None, 5, Some ''no output''))"


text \<open>A report with one converted file and one failed file out of two.\<close>

definition sample_mixed_report :: ConversionReport where
  "sample_mixed_report =
     add_failure ''b.docx'' ''no output'' (add_success ''a.docx'' (init\<lparr>total_files := 2\<rparr>))"

section \<open>The outcome of one file\<close>

lemma attempt_loop_shape:
  "fst (attempt_loop c w pdf xs last_error tr) = Inr (p, a, e) \<Longrightarrow> (p \<noteq> None) = (e = None)"
  by (induction xs arbitrary: last_error tr) (auto split: prod.splits attempt_end.splits)

lemma fallback_invoked_raises:
  assumes "fallback_invoked c w k"
  obtains exc where "try_docx2pdf w k = (Inl exc, [Docx2pdf k])"
    and "timeout_or_value (exn_class exc)" and "has_win32 c" and "k < max_retries c"
  using assms unfolding fallback_invoked_def try_docx2pdf_def
  by (cases "docx2pdf w k") (auto split: bool.splits)

lemma attempt_body_events:
  "snd (attempt_body c w k) =
     (if pdf_leftover w k then [Unlink k] else [])
     @ (if convert_imported w then [Docx2pdf k] else [])
     @ (if fallback_invoked c w k then [Win32com k] else [])"
proof (cases "convert_imported w")
  case False
  then show ?thesis
    by (simp add: attempt_body_def try_docx2pdf_def fallback_invoked_def)
next
  case True
  note imported = this
  show ?thesis
  proof (cases "fallback_invoked c w k")
    case True
    then obtain exc where "try_docx2pdf w k = (Inl exc, [Docx2pdf k])"
      and "timeout_or_value (exn_class exc)" and "has_win32 c" and "k < max_retries c"
      by (rule fallback_invoked_raises)
    with True imported show ?thesis
      by (cases "convert_with_win32 c (win32com w k)")
        (simp_all add: attempt_body_def split: bool.splits)
  next
    case False
    obtain r where body: "try_docx2pdf w k = (r, [Docx2pdf k])"
      using imported unfolding try_docx2pdf_def by simp
    show ?thesis
    proof (cases r)
      case (Inr u)
      with body False imported show ?thesis by (simp add: attempt_body_def)
    next
      case (Inl exc)
      have "\<not> (timeout_or_value (exn_class exc) \<and> has_win32 c \<and> k < max_retries c)"
        using False imported body Inl unfolding fallback_invoked_def try_docx2pdf_def
        by (cases "docx2pdf w k") (auto split: bool.splits)
      with body Inl False imported show ?thesis by (auto simp: attempt_body_def)
    qed
  qed
qed

lemma fallback_success_returns:
  assumes "fallback_invoked c w k" and "convert_with_win32 c (win32com w k) = Inr True"
  shows "fst (attempt_body c w k) = Return_pdf"
proof -
  from assms(1) obtain exc where "try_docx2pdf w k = (Inl exc, [Docx2pdf k])"
    and "timeout_or_value (exn_class exc)" and "has_win32 c" and "k < max_retries c"
    by (rule fallback_invoked_raises)
  with assms(2) show ?thesis by (simp add: attempt_body_def)
qed

lemma attempt_body_falls_through:
  assumes "primary_fails w k"
    and "fallback_invoked c w k \<Longrightarrow> convert_with_win32 c (win32com w k) = Inr False"
  shows "\<exists>evs. attempt_body c w k = (Fall_through (attempt_error w k), evs)"
proof (cases "convert_imported w")
  case False
  then show ?thesis
    by (simp add: attempt_body_def try_docx2pdf_def attempt_error_def)
next
  case True
  show ?thesis
  proof (cases "docx2pdf w k")
    case (Converted nonempty)
    with True assms show ?thesis
      by (cases nonempty)
        (auto simp: attempt_body_def try_docx2pdf_def attempt_error_def primary_fails_def
          fallback_invoked_def)
  next
    case (Convert_raised exc)
    with True assms show ?thesis
      by (auto simp: attempt_body_def try_docx2pdf_def attempt_error_def primary_fails_def
          fallback_invoked_def)
  next
    case Timed_out
    with True assms show ?thesis
      by (auto simp: attempt_body_def try_docx2pdf_def attempt_error_def primary_fails_def
          fallback_invoked_def)
  qed
qed

lemma attempt_body_no_escape:
  assumes "\<forall>exc. docx2pdf w k = Convert_raised exc \<longrightarrow> is_Exception (exn_class exc)"
    and "\<forall>exc. win32com w k = Com_raised exc \<longrightarrow> is_Exception (exn_class exc)"
  shows "fst (attempt_body c w k) \<noteq> Propagate exc"
proof -
  have fallback: "convert_with_win32 c (win32com w k) \<noteq> Inl e" for e
    using assms(2) unfolding convert_with_win32_def by (cases "win32com w k") auto
  have primary: "is_Exception (exn_class e)" if "fst (try_docx2pdf w k) = Inl e" for e
    using that assms(1) unfolding try_docx2pdf_def
    by (cases "docx2pdf w k") (auto split: if_splits bool.splits)
  show ?thesis
  proof (cases "try_docx2pdf w k")
    case (Pair r evs)
    show ?thesis
    proof (cases r)
      case (Inr u)
      with Pair show ?thesis by (simp add: attempt_body_def)
    next
      case (Inl e)
      with Pair primary [of e] have "is_Exception (exn_class e)" by simp
      with Pair Inl fallback show ?thesis
        by (cases "convert_with_win32 c (win32com w k)")
          (auto simp: attempt_body_def split: bool.splits)
    qed
  qed
qed

text \<open>
  Attempts that fall through are skipped by the loop, which carries on with the rest
  of the range and the error of the last of them.
\<close>

lemma attempt_loop_skip:
  assumes "\<forall>k\<in>set xs. \<exists>evs. attempt_body c w k = (Fall_through (msg k), evs)"
  shows "\<exists>evs. attempt_loop c w pdf (xs @ ys) last_error tr =
           attempt_loop c w pdf ys (if xs = [] then last_error else Some (msg (last xs))) (tr @ evs)"
  using assms
proof (induction xs arbitrary: last_error tr)
  case Nil
  show ?case by (auto intro: exI [of _ "[]"])
next
  case (Cons x xs)
  from Cons.prems obtain evs where body: "attempt_body c w x = (Fall_through (msg x), evs)"
    by auto
  let ?tr = "tr @ evs @ (if x < max_retries c then [Sleep (min (x * 3) 15)] else [])"
  from Cons.prems have "\<forall>k\<in>set xs. \<exists>evs. attempt_body c w k = (Fall_through (msg k), evs)"
    by simp
  from Cons.IH [OF this, of "Some (msg x)" ?tr]
  obtain evs' where "attempt_loop c w pdf (xs @ ys) (Some (msg x)) ?tr =
      attempt_loop c w pdf ys (if xs = [] then Some (msg x) else Some (msg (last xs))) (?tr @ evs')"
    by blast
  with body show ?case
    by (intro exI [of _ "evs @ (if x < max_retries c then [Sleep (min (x * 3) 15)] else []) @ evs'"])
      simp
qed

lemma attempt_loop_trace_extends:
  "\<exists>evs. snd (attempt_loop c w pdf xs last_error tr) = tr @ evs"
proof (induction xs arbitrary: last_error tr)
  case Nil
  then show ?case by simp
next
  case (Cons x xs)
  show ?case
  proof (cases "attempt_body c w x")
    case (Pair r evs)
    show ?thesis
    proof (cases r)
      case (Fall_through m)
      from Cons.IH [of "Some m" "tr @ evs @ (if x < max_retries c then [Sleep (min (x * 3) 15)] else [])"]
      show ?thesis using Pair Fall_through by auto
    qed (use Pair in auto)
  qed
qed

lemma attempt_loop_keeps_body_events:
  "set (snd (attempt_body c w x)) \<subseteq> set (snd (attempt_loop c w pdf (x # xs) last_error tr))"
proof (cases "attempt_body c w x")
  case (Pair r evs)
  show ?thesis
  proof (cases r)
    case (Fall_through m)
    from attempt_loop_trace_extends [of c w pdf xs "Some m"
        "tr @ evs @ (if x < max_retries c then [Sleep (min (x * 3) 15)] else [])"]
    show ?thesis using Pair Fall_through by auto
  qed (use Pair in auto)
qed


lemma attempt_loop_returns:
  assumes "\<forall>k exc. docx2pdf w k = Convert_raised exc \<longrightarrow> is_Exception (exn_class exc)"
    and "\<forall>k exc. win32com w k = Com_raised exc \<longrightarrow> is_Exception (exn_class exc)"
  shows "\<exists>out. fst (attempt_loop c w pdf xs last_error tr) = Inr out"
proof (induction xs arbitrary: last_error tr)
  case Nil
  show ?case by simp
next
  case (Cons x xs)
  show ?case
  proof (cases "attempt_body c w x")
    case (Pair r evs)
    show ?thesis
    proof (cases r)
      case Return_pdf
      with Pair show ?thesis by simp
    next
      case (Fall_through m)
      with Pair Cons.IH show ?thesis by simp
    next
      case (Propagate exc)
      with Pair attempt_body_no_escape [of w x c exc] assms show ?thesis by simp
    qed
  qed
qed

lemma attempt_loop_calls:
  assumes "\<And>k. length (filter P (snd (attempt_body c w k))) \<le> 1"
    and "\<And>n. \<not> P (Sleep n)"
  shows "length (filter P (snd (attempt_loop c w pdf xs last_error tr)))
           \<le> length (filter P tr) + length xs"
proof (induction xs arbitrary: last_error tr)
  case Nil
  show ?case by simp
next
  case (Cons x xs)
  show ?case
  proof (cases "attempt_body c w x")
    case (Pair r evs)
    have one: "length (filter P evs) \<le> 1"
      using assms(1) [of x] Pair by simp
    show ?thesis
    proof (cases r)
      case (Fall_through m)
      from Cons.IH [of "Some m" "tr @ evs @ (if x < max_retries c then [Sleep (min (x * 3) 15)] else [])"]
      show ?thesis using Pair Fall_through one assms(2) by auto
    qed (use Pair one in auto)
  qed
qed

lemma sample_first_try:
  "convert_single_file sample_paths (sample_converter 3 False)
      (sample_world (\<lambda>k. Converted True) (\<lambda>k. Com_saved False)) ''a.docx'' ''tmp''
   = (Inr (Some ''tmp/a.pdf'', 1, None), [Docx2pdf 1])"
  by (simp add: convert_single_file_def sample_paths_def sample_world_def sample_converter_def
      upto.simps attempt_body_def try_docx2pdf_def)

text \<open>
  C2. Whenever \<open>convert_single_file\<close> returns a triple \<open>(pdf_path, attempts, error)\<close>,
  the output path is set exactly when the error is unset: no return has both, and no
  return has neither. (The caller takes the file for converted exactly when the path
  is set.)
\<close>

theorem outcome_path_xor_error:
  "fst (convert_single_file pl c w docx_file temp_dir) = Inr (pdf_path, attempts, error)
   \<Longrightarrow> (pdf_path \<noteq> None) = (error = None)"
  unfolding convert_single_file_def Let_def
  by (auto split: if_splits dest: attempt_loop_shape)

theorem outcome_path_xor_error_witness:
  "fst (convert_single_file sample_paths (sample_converter 3 False)
      (sample_world (\<lambda>k. Converted True) (\<lambda>k. Com_saved False)) ''a.docx'' ''tmp'')
     = Inr (Some ''tmp/a.pdf'', 1, None)
   \<and> ((Some ''tmp/a.pdf'' \<noteq> (None :: string option)) = ((None :: string option) = None))"
proof -
  have run: "fst (convert_single_file sample_paths (sample_converter 3 False)
      (sample_world (\<lambda>k. Converted True) (\<lambda>k. Com_saved False)) ''a.docx'' ''tmp'')
     = Inr (Some ''tmp/a.pdf'', 1, None)"
    by (simp add: sample_first_try)
  from outcome_path_xor_error [OF run] run show ?thesis by simp
qed

text \<open>
  C7. When the input file does not exist or is not a regular file, or the output
  directory does not exist, \<open>convert_single_file\<close> returns at once a failed outcome
  (no path, a non-empty error) with \<open>attempts = 0\<close>, and it has made no call at all:
  no strategy was invoked, nothing was removed and no pause was taken.
\<close>

theorem precondition_failure_no_attempt:
  "\<not> docx_exists w \<or> \<not> docx_is_file w \<or> \<not> temp_dir_exists w \<Longrightarrow>
   (\<exists>msg. msg \<noteq> [] \<and> fst (convert_single_file pl c w docx_file temp_dir) = Inr (None, 0, Some msg))
   \<and> snd (convert_single_file pl c w docx_file temp_dir) = []"
  unfolding convert_single_file_def Let_def by auto

theorem precondition_failure_no_attempt_witness:
  "\<not> docx_exists ((sample_world (\<lambda>k. Converted True) (\<lambda>k. Com_saved True))\<lparr>docx_exists := False\<rparr>)
   \<and> convert_single_file sample_paths (sample_converter 5 True)
        ((sample_world (\<lambda>k. Converted True) (\<lambda>k. Com_saved True))\<lparr>docx_exists := False\<rparr>)
        ''a.docx'' ''tmp''
      = (Inr (None, 0, Some (''El fitxer a.docx no existeix o no '' @ e_acute @ ''s v'' @ a_grave
           @ ''lid.'')), [])"
proof -
  let ?w = "(sample_world (\<lambda>k. Converted True) (\<lambda>k. Com_saved True))\<lparr>docx_exists := False\<rparr>"
  have missing: "\<not> docx_exists ?w \<or> \<not> docx_is_file ?w \<or> \<not> temp_dir_exists ?w"
    by (simp add: sample_world_def)
  from precondition_failure_no_attempt [OF missing, of sample_paths "sample_converter 5 True" "''a.docx''" "''tmp''"]
  show ?thesis
    by (simp add: convert_single_file_def sample_paths_def sample_world_def)
qed

section \<open>Retries and the fallback\<close>



lemma sample_other_error:
  "convert_single_file sample_paths (sample_converter 2 True)
      (sample_world (\<lambda>k. if k = 1 then Convert_raised (Exn OtherException ''Word not found'')
                          else Converted True)
         (\<lambda>k. Com_saved True)) ''a.docx'' ''tmp''
   = (Inr (Some ''tmp/a.pdf'', 2, None), [Docx2pdf 1, Sleep 3, Docx2pdf 2])"
  by (simp add: convert_single_file_def sample_paths_def sample_world_def sample_converter_def
      upto.simps attempt_body_def try_docx2pdf_def)

text \<open>
  C3, as the claim states it, fails: with the fallback available and two attempts
  allowed, a first attempt in which the strategy raises an error that is neither a
  \<open>ValueError\<close> nor a timeout does not run the fallback, although the fallback would
  have succeeded; the file is converted in the second attempt only.
\<close>

theorem fallback_skipped_counterexample:
  "primary_fails
     (sample_world (\<lambda>k. if k = 1 then Convert_raised (Exn OtherException ''Word not found'')
                         else Converted True) (\<lambda>k. Com_saved True)) 1
   \<and> has_win32 (sample_converter 2 True)
   \<and> 1 < max_retries (sample_converter 2 True)
   \<and> convert_with_win32 (sample_converter 2 True) (Com_saved True) = Inr True
   \<and> Win32com 1 \<notin> set (snd (convert_single_file sample_paths (sample_converter 2 True)
        (sample_world (\<lambda>k. if k = 1 then Convert_raised (Exn OtherException ''Word not found'')
                            else Converted True) (\<lambda>k. Com_saved True)) ''a.docx'' ''tmp''))
   \<and> fst (convert_single_file sample_paths (sample_converter 2 True)
        (sample_world (\<lambda>k. if k = 1 then Convert_raised (Exn OtherException ''Word not found'')
                            else Converted True) (\<lambda>k. Com_saved True)) ''a.docx'' ''tmp'')
      = Inr (Some ''tmp/a.pdf'', 2, None)"
  by (simp add: sample_other_error)
    (simp add: primary_fails_def sample_world_def sample_converter_def convert_with_win32_def)

text \<open>
  C3, amended. When attempt \<open>k\<close> is reached (the input file and the output directory
  exist and every earlier attempt failed without a fallback success), the fallback is
  available, \<open>k\<close> is not the final attempt, and the primary strategy fails in attempt
  \<open>k\<close> by a timeout, by an empty or missing output, or by raising a \<open>ValueError\<close>
  or a timeout error, then the fallback is run in attempt \<open>k\<close>; and if the fallback
  succeeds, \<open>convert_single_file\<close> returns the PDF path with \<open>attempts = k\<close> and no
  error.
\<close>

theorem fallback_after_timeout_or_empty:
  assumes "docx_exists w" and "docx_is_file w" and "temp_dir_exists w"
    and "1 \<le> k" and "k < max_retries c" and "has_win32 c"
    and reach: "\<forall>j\<in>{1..<k}. primary_fails w j \<and>
           (fallback_invoked c w j \<longrightarrow> convert_with_win32 c (win32com w j) = Inr False)"
    and "convert_imported w" and "fails_into_fallback (docx2pdf w k)"
  shows "Win32com k \<in> set (snd (convert_single_file pl c w docx_file temp_dir)) \<and>
         (convert_with_win32 c (win32com w k) = Inr True \<longrightarrow>
            fst (convert_single_file pl c w docx_file temp_dir) =
              Inr (Some (path_join pl temp_dir (path_stem pl docx_file @ ''.pdf'')), k, None))"
proof -
  let ?pdf = "path_join pl temp_dir (path_stem pl docx_file @ ''.pdf'')"
  have inv: "fallback_invoked c w k"
    using assms by (simp add: fallback_invoked_def)
  have split: "[1..max_retries c] = [1..k - 1] @ k # [k + 1..max_retries c]"
    using assms by (intro upto_split3) simp_all
  have "\<forall>j\<in>set [1..k - 1]. \<exists>evs. attempt_body c w j = (Fall_through (attempt_error w j), evs)"
    using reach by (auto intro: attempt_body_falls_through)
  from attempt_loop_skip [OF this, of ?pdf "k # [k + 1..max_retries c]" None "[]"]
  obtain last_error tr where loop: "attempt_loop c w ?pdf [1..max_retries c] None [] =
      attempt_loop c w ?pdf (k # [k + 1..max_retries c]) last_error tr"
    unfolding split by auto
  have csf: "convert_single_file pl c w docx_file temp_dir =
      attempt_loop c w ?pdf (k # [k + 1..max_retries c]) last_error tr"
    using assms loop by (simp add: convert_single_file_def)
  have "Win32com k \<in> set (snd (convert_single_file pl c w docx_file temp_dir))"
    using inv attempt_loop_keeps_body_events [of c w k ?pdf "[k + 1..max_retries c]" last_error tr]
    unfolding csf by (auto simp: attempt_body_events)
  moreover have "fst (convert_single_file pl c w docx_file temp_dir) = Inr (Some ?pdf, k, None)"
    if "convert_with_win32 c (win32com w k) = Inr True"
    using fallback_success_returns [OF inv that] unfolding csf
    by (cases "attempt_body c w k") simp
  ultimately show ?thesis by blast
qed

theorem fallback_after_timeout_or_empty_witness:
  "fails_into_fallback
     (docx2pdf (sample_world (\<lambda>k. Timed_out) (\<lambda>k. if k = 2 then Com_saved True else Com_saved False)) 2)
   \<and> convert_with_win32 (sample_converter 3 True) (Com_saved True) = Inr True
   \<and> Win32com 2 \<in> set (snd (convert_single_file sample_paths (sample_converter 3 True)
        (sample_world (\<lambda>k. Timed_out) (\<lambda>k. if k = 2 then Com_saved True else Com_saved False))
        ''a.docx'' ''tmp''))
   \<and> fst (convert_single_file sample_paths (sample_converter 3 True)
        (sample_world (\<lambda>k. Timed_out) (\<lambda>k. if k = 2 then Com_saved True else Com_saved False))
        ''a.docx'' ''tmp'')
      = Inr (Some ''tmp/a.pdf'', 2, None)"
proof -
  let ?w = "sample_world (\<lambda>k. Timed_out) (\<lambda>k. if k = 2 then Com_saved True else Com_saved False)"
  let ?c = "sample_converter 3 True"
  have pre: "docx_exists ?w" "docx_is_file ?w" "temp_dir_exists ?w"
    by (simp_all add: sample_world_def)
  have k: "(1::int) \<le> 2" "2 < max_retries ?c" "has_win32 ?c"
    by (simp_all add: sample_converter_def)
  have reach: "\<forall>j\<in>{1..<2}. primary_fails ?w j \<and>
      (fallback_invoked ?c ?w j \<longrightarrow> convert_with_win32 ?c (win32com ?w j) = Inr False)"
    by (auto simp: primary_fails_def sample_world_def convert_with_win32_def)
  have fail: "convert_imported ?w" "fails_into_fallback (docx2pdf ?w 2)"
    by (simp_all add: sample_world_def)
  have ok: "convert_with_win32 ?c (win32com ?w 2) = Inr True"
    by (simp add: convert_with_win32_def sample_world_def sample_converter_def)
  from fallback_after_timeout_or_empty [OF pre k reach fail, of sample_paths "''a.docx''" "''tmp''"] ok
  show ?thesis
    by (simp add: sample_paths_def sample_world_def convert_with_win32_def sample_converter_def)
qed

section \<open>Exceptions of the strategies\<close>

lemma attempt_body_docx2pdf_calls:
  "length (filter is_docx2pdf_call (snd (attempt_body c w k))) \<le> 1"
  by (simp add: attempt_body_events)

lemma attempt_body_win32com_calls:
  "length (filter is_win32com_call (snd (attempt_body c w k))) \<le> 1"
  by (simp add: attempt_body_events)

lemma sample_system_exit:
  "convert_single_file sample_paths (sample_converter 5 True)
      (sample_world (\<lambda>k. Convert_raised (Exn BaseExceptionOnly ''1'')) (\<lambda>k. Com_saved True))
      ''a.docx'' ''tmp''
   = (Inl (Exn BaseExceptionOnly ''1''), [Docx2pdf 1])"
  by (simp add: convert_single_file_def sample_paths_def sample_world_def sample_converter_def
      upto.simps attempt_body_def try_docx2pdf_def)

lemma sample_always_raises:
  "convert_single_file sample_paths (sample_converter 2 True)
      (sample_world (\<lambda>k. Convert_raised (Exn OtherException ''Word not found''))
         (\<lambda>k. Com_raised (Exn OtherException ''no COM'')))
      ''a.docx'' ''tmp''
   = (Inr (None, 2, Some (''Fallo despr'' @ e_acute @ ''s de 2 intents: Word not found'')),
      [Docx2pdf 1, Sleep 3, Docx2pdf 2])"
  by (simp add: convert_single_file_def sample_paths_def sample_world_def sample_converter_def
      upto.simps attempt_body_def try_docx2pdf_def exhausted_message_def str_optional_def
      str_int_def str_nat.simps digit_def)

text \<open>
  C10, as the claim states it, fails: an exception of the primary strategy whose class
  derives from \<open>BaseException\<close> but not from \<open>Exception\<close> (\<open>SystemExit\<close> with
  code 1, say) is taken by neither handler of the loop and leaves
  \<open>convert_single_file\<close> in the first attempt.
\<close>

theorem base_exception_propagates_counterexample:
  "fst (convert_single_file sample_paths (sample_converter 5 True)
      (sample_world (\<lambda>k. Convert_raised (Exn BaseExceptionOnly ''1'')) (\<lambda>k. Com_saved True))
      ''a.docx'' ''tmp'')
   = Inl (Exn BaseExceptionOnly ''1'')"
  by (simp add: sample_system_exit)

text \<open>
  C10, amended. For every input, every state of the file-system checks and every
  behaviour of the two strategies in which whatever they raise derives from
  \<open>Exception\<close> (the primary strategy may also be unavailable, time out or leave an
  empty output), \<open>convert_single_file\<close> returns an outcome triple and no exception
  leaves it; each strategy is invoked at most \<open>max_retries\<close> times.
\<close>

theorem exception_derived_errors_are_caught:
  assumes "\<forall>k exc. docx2pdf w k = Convert_raised exc \<longrightarrow> is_Exception (exn_class exc)"
    and "\<forall>k exc. win32com w k = Com_raised exc \<longrightarrow> is_Exception (exn_class exc)"
  shows "(\<exists>out. fst (convert_single_file pl c w docx_file temp_dir) = Inr out) \<and>
         length (filter is_docx2pdf_call (snd (convert_single_file pl c w docx_file temp_dir)))
           \<le> nat (max_retries c) \<and>
         length (filter is_win32com_call (snd (convert_single_file pl c w docx_file temp_dir)))
           \<le> nat (max_retries c)"
proof -
  let ?pdf = "path_join pl temp_dir (path_stem pl docx_file @ ''.pdf'')"
  have "\<exists>out. fst (convert_single_file pl c w docx_file temp_dir) = Inr out"
    using attempt_loop_returns [OF assms, of c ?pdf "[1..max_retries c]" None "[]"]
    by (simp add: convert_single_file_def)
  moreover have "length (filter is_docx2pdf_call (snd (convert_single_file pl c w docx_file temp_dir)))
           \<le> nat (max_retries c)"
    using attempt_loop_calls [of is_docx2pdf_call c w ?pdf "[1..max_retries c]" None "[]",
        OF attempt_body_docx2pdf_calls]
    by (simp add: convert_single_file_def)
  moreover have "length (filter is_win32com_call (snd (convert_single_file pl c w docx_file temp_dir)))
           \<le> nat (max_retries c)"
    using attempt_loop_calls [of is_win32com_call c w ?pdf "[1..max_retries c]" None "[]",
        OF attempt_body_win32com_calls]
    by (simp add: convert_single_file_def)
  ultimately show ?thesis by blast
qed

theorem exception_derived_errors_are_caught_witness:
  "is_Exception (exn_class (Exn OtherException ''Word not found''))
   \<and> is_Exception (exn_class (Exn OtherException ''no COM''))
   \<and> fst (convert_single_file sample_paths (sample_converter 2 True)
        (sample_world (\<lambda>k. Convert_raised (Exn OtherException ''Word not found''))
           (\<lambda>k. Com_raised (Exn OtherException ''no COM''))) ''a.docx'' ''tmp'')
      = Inr (None, 2, Some (''Fallo despr'' @ e_acute @ ''s de 2 intents: Word not found''))
   \<and> length (filter is_docx2pdf_call (snd (convert_single_file sample_paths (sample_converter 2 True)
        (sample_world (\<lambda>k. Convert_raised (Exn OtherException ''Word not found''))
           (\<lambda>k. Com_raised (Exn OtherException ''no COM''))) ''a.docx'' ''tmp''))) = 2"
proof -
  let ?w = "sample_world (\<lambda>k. Convert_raised (Exn OtherException ''Word not found''))
      (\<lambda>k. Com_raised (Exn OtherException ''no COM''))"
  have primary: "\<forall>k exc. docx2pdf ?w k = Convert_raised exc \<longrightarrow> is_Exception (exn_class exc)"
    by (auto simp: sample_world_def)
  have fallback: "\<forall>k exc. win32com ?w k = Com_raised exc \<longrightarrow> is_Exception (exn_class exc)"
    by (auto simp: sample_world_def)
  from exception_derived_errors_are_caught [OF primary fallback, of sample_paths
      "sample_converter 2 True" "''a.docx''" "''tmp''"]
  show ?thesis by (simp add: sample_always_raises)
qed

section \<open>Collecting the results of a batch\<close>

lemma record_result_effect:
  assumes "record_result pl src res s = Inr s'"
  shows "total_files (conversion_report s') = total_files (conversion_report s)"
    and "recorded_outcomes s' = Suc (recorded_outcomes s)"
    and "completed_conversions s' = completed_conversions s + 1"
    and "pdf_files s' = pdf_files s @ output_of res"
proof -
  have "total_files (conversion_report s') = total_files (conversion_report s) \<and>
      recorded_outcomes s' = Suc (recorded_outcomes s) \<and>
      completed_conversions s' = completed_conversions s + 1 \<and>
      pdf_files s' = pdf_files s @ output_of res"
  proof (cases res)
    case (Task_returned out)
    obtain pdf_path attempts error where out: "out = (pdf_path, attempts, error)"
      by (cases out)
    show ?thesis
      using assms Task_returned out
      by (cases pdf_path)
        (auto simp: record_result_def recorded_outcomes_def add_success_def add_failure_def
          add_retry_def Let_def)
  next
    case (Task_raised exc)
    show ?thesis
      using assms Task_raised
      by (auto simp: record_result_def recorded_outcomes_def add_failure_def Let_def
          split: if_splits)
  qed
  then show "total_files (conversion_report s') = total_files (conversion_report s)"
    and "recorded_outcomes s' = Suc (recorded_outcomes s)"
    and "completed_conversions s' = completed_conversions s + 1"
    and "pdf_files s' = pdf_files s @ output_of res"
    by simp_all
qed

lemma collect_loop_counts:
  assumes "collect_loop pl cancel i futs s = (s', ex)"
  shows "total_files (conversion_report s') = total_files (conversion_report s)
       \<and> recorded_outcomes s' \<le> recorded_outcomes s + length futs
       \<and> (ex = Loop_done \<longrightarrow>
            recorded_outcomes s' = recorded_outcomes s + length futs
          \<and> completed_conversions s' = completed_conversions s + int (length futs)
          \<and> pdf_files s' = pdf_files s @ concat (map (\<lambda>fut. output_of (snd fut)) futs))"
  using assms
proof (induction futs arbitrary: i s)
  case Nil
  then show ?case by simp
next
  case (Cons fut futs)
  obtain src res where fut: "fut = (src, res)" by (cases fut)
  show ?case
  proof (cases "cancel i")
    case True
    with Cons.prems fut show ?thesis by simp
  next
    case False
    show ?thesis
    proof (cases "record_result pl src res s")
      case (Inl exc)
      with Cons.prems fut False show ?thesis by auto
    next
      case (Inr s1)
      with Cons.prems fut False have "collect_loop pl cancel (Suc i) futs s1 = (s', ex)"
        by simp
      from Cons.IH [OF this] record_result_effect [OF Inr] fut show ?thesis
        by simp
    qed
  qed
qed

text \<open>
  The first \<open>n\<close> iterations of the loop are the loop run on the first \<open>n\<close> finished
  futures: a run over \<open>xs @ ys\<close> that gets through \<open>xs\<close> carries on with \<open>ys\<close>
  from the state reached, and one that stops in \<open>xs\<close> stops in the same state.
\<close>

lemma collect_loop_append:
  "collect_loop pl cancel i (xs @ ys) s =
     (case collect_loop pl cancel i xs s of
        (s', Loop_done) \<Rightarrow> collect_loop pl cancel (i + length xs) ys s'
      | (s', Loop_cancelled) \<Rightarrow> (s', Loop_cancelled)
      | (s', Loop_escaped exc) \<Rightarrow> (s', Loop_escaped exc))"
proof (induction xs arbitrary: i s)
  case Nil
  show ?case by simp
next
  case (Cons fut xs)
  obtain src res where fut: "fut = (src, res)" by (cases fut)
  show ?case
  proof (cases "record_result pl src res s")
    case (Inl exc)
    with fut show ?thesis by simp
  next
    case (Inr s1)
    with fut Cons.IH [of "Suc i" s1] show ?thesis
      by (auto split: prod.splits loop_exit.splits)
  qed
qed

lemma start_conversion_fields:
  "total_files (conversion_report (start_conversion now docx_files)) = int (length docx_files)"
  "recorded_outcomes (start_conversion now docx_files) = 0"
  "completed_conversions (start_conversion now docx_files) = 0"
  "pdf_files (start_conversion now docx_files) = []"
  "(start_conversion now docx_files)\<lparr>pdf_files := []\<rparr> = start_conversion now docx_files"
  "successful_conversions (conversion_report (start_conversion now docx_files)) = []"
  "failed_conversions (conversion_report (start_conversion now docx_files)) = []"
  "retried_files (conversion_report (start_conversion now docx_files)) = []"
  by (simp_all add: start_conversion_def init_def recorded_outcomes_def)

lemma set_end_time_fields:
  "total_files (conversion_report (set_end_time t s)) = total_files (conversion_report s)"
  "recorded_outcomes (set_end_time t s) = recorded_outcomes s"
  "completed_conversions (set_end_time t s) = completed_conversions s"
  "pdf_files (set_end_time t s) = pdf_files s"
  "successful_conversions (conversion_report (set_end_time t s)) =
     successful_conversions (conversion_report s)"
  "failed_conversions (conversion_report (set_end_time t s)) =
     failed_conversions (conversion_report s)"
  "retried_files (conversion_report (set_end_time t s)) = retried_files (conversion_report s)"
  by (simp_all add: set_end_time_def recorded_outcomes_def)

lemma futures_done_length:
  "mset (completion_order env) = mset [0..<length docx_files] \<Longrightarrow>
   length (futures_done env docx_files) = length docx_files"
  using mset_eq_length [of "completion_order env" "[0..<length docx_files]"]
  by (simp add: futures_done_def)

text \<open>The state and the exit of the thread, from those of its collection loop.\<close>

lemma thread_state_of_loop:
  assumes "collect_loop pl (cancel_flag env) 0 (futures_done env docx_files)
             (start_conversion now docx_files) = (s, ex)"
  shows "total_files (conversion_report (fst (convert_and_zip_thread pl env docx_files
            (start_conversion now docx_files)))) = total_files (conversion_report s)"
    and "recorded_outcomes (fst (convert_and_zip_thread pl env docx_files
            (start_conversion now docx_files))) = recorded_outcomes s"
    and "completed_conversions (fst (convert_and_zip_thread pl env docx_files
            (start_conversion now docx_files))) = completed_conversions s"
    and "pdf_files (fst (convert_and_zip_thread pl env docx_files
            (start_conversion now docx_files))) = pdf_files s"
    and "successful_conversions (conversion_report (fst (convert_and_zip_thread pl env docx_files
            (start_conversion now docx_files)))) = successful_conversions (conversion_report s)"
    and "failed_conversions (conversion_report (fst (convert_and_zip_thread pl env docx_files
            (start_conversion now docx_files)))) = failed_conversions (conversion_report s)"
    and "retried_files (conversion_report (fst (convert_and_zip_thread pl env docx_files
            (start_conversion now docx_files)))) = retried_files (conversion_report s)"
  using assms
  by (auto simp: convert_and_zip_thread_def start_conversion_fields set_end_time_fields
      split: loop_exit.splits zip_outcome.splits)

lemma thread_exit_of_loop:
  assumes "collect_loop pl (cancel_flag env) 0 (futures_done env docx_files)
             (start_conversion now docx_files) = (s, ex)"
  shows "ex = Loop_cancelled \<Longrightarrow>
           snd (convert_and_zip_thread pl env docx_files (start_conversion now docx_files)) = Cancelled"
    and "ex = Loop_escaped exc \<Longrightarrow>
           snd (convert_and_zip_thread pl env docx_files (start_conversion now docx_files)) = Escaped exc"
    and "ex = Loop_done \<Longrightarrow> pdf_files s = [] \<Longrightarrow>
           snd (convert_and_zip_thread pl env docx_files (start_conversion now docx_files))
             = No_files_converted"
    and "ex = Loop_done \<Longrightarrow> pdf_files s \<noteq> [] \<Longrightarrow>
           snd (convert_and_zip_thread pl env docx_files (start_conversion now docx_files))
             \<noteq> No_files_converted"
  using assms
  by (auto simp: convert_and_zip_thread_def start_conversion_fields
      split: loop_exit.splits zip_outcome.splits)


lemma record_result_retried:
  assumes "record_result pl src res s = Inr s'"
    and "\<forall>(name, attempts)\<in>set (retried_files (conversion_report s)).
           name \<in> set (successful_conversions (conversion_report s)) \<and> 1 < attempts"
  shows "\<forall>(name, attempts)\<in>set (retried_files (conversion_report s')).
           name \<in> set (successful_conversions (conversion_report s')) \<and> 1 < attempts"
proof (cases res)
  case (Task_returned out)
  obtain pdf_path attempts error where out: "out = (pdf_path, attempts, error)"
    by (cases out)
  show ?thesis
    using assms Task_returned out
    by (cases pdf_path)
      (auto simp: record_result_def add_success_def add_failure_def add_retry_def Let_def
        split: if_splits)
next
  case (Task_raised exc)
  show ?thesis
    using assms Task_raised
    by (auto simp: record_result_def add_failure_def Let_def split: if_splits)
qed


lemma collect_loop_retried:
  assumes "collect_loop pl cancel i futs s = (s', ex)"
    and "\<forall>(name, attempts)\<in>set (retried_files (conversion_report s)).
           name \<in> set (successful_conversions (conversion_report s)) \<and> 1 < attempts"
  shows "\<forall>(name, attempts)\<in>set (retried_files (conversion_report s')).
           name \<in> set (successful_conversions (conversion_report s')) \<and> 1 < attempts"
  using assms
proof (induction futs arbitrary: i s)
  case Nil
  then show ?case by simp
next
  case (Cons fut futs)
  obtain src res where fut: "fut = (src, res)" by (cases fut)
  show ?case
  proof (cases "cancel i")
    case True
    with Cons.prems fut show ?thesis by simp
  next
    case False
    show ?thesis
    proof (cases "record_result pl src res s")
      case (Inl exc)
      with Cons.prems fut False show ?thesis by simp
    next
      case (Inr s1)
      with Cons.prems fut False have run: "collect_loop pl cancel (Suc i) futs s1 = (s', ex)"
        by simp
      from Cons.IH [OF run record_result_retried [OF Inr Cons.prems(2)]] show ?thesis .
    qed
  qed
qed




text \<open>
  C1. In a batch run started by \<open>start_conversion\<close>, in which every submitted task
  finishes once, the number of recorded successes and failures never exceeds the
  declared total: this holds after any number \<open>n\<close> of iterations of the collection
  loop and in the state the thread ends in. When the run ends neither by cancellation
  nor by an exception leaving it, the number equals the total.
\<close>

theorem recorded_outcomes_within_total:
  assumes "mset (completion_order env) = mset [0..<length docx_files]"
  shows "int (recorded_outcomes (fst (collect_loop pl (cancel_flag env) 0
                (take n (futures_done env docx_files)) (start_conversion now docx_files))))
           \<le> total_files (conversion_report (fst (collect_loop pl (cancel_flag env) 0
                (take n (futures_done env docx_files)) (start_conversion now docx_files))))
       \<and> int (recorded_outcomes (fst (convert_and_zip_thread pl env docx_files
                (start_conversion now docx_files))))
           \<le> total_files (conversion_report (fst (convert_and_zip_thread pl env docx_files
                (start_conversion now docx_files))))
       \<and> (snd (convert_and_zip_thread pl env docx_files (start_conversion now docx_files))
              \<noteq> Cancelled
            \<and> (\<forall>exc. snd (convert_and_zip_thread pl env docx_files
                  (start_conversion now docx_files)) \<noteq> Escaped exc)
          \<longrightarrow> int (recorded_outcomes (fst (convert_and_zip_thread pl env docx_files
                  (start_conversion now docx_files))))
              = total_files (conversion_report (fst (convert_and_zip_thread pl env docx_files
                  (start_conversion now docx_files)))))"
proof -
  let ?futs = "futures_done env docx_files"
  let ?s0 = "start_conversion now docx_files"
  have len: "length ?futs = length docx_files"
    using assms by (rule futures_done_length)
  obtain sn exn where part: "collect_loop pl (cancel_flag env) 0 (take n ?futs) ?s0 = (sn, exn)"
    by (cases "collect_loop pl (cancel_flag env) 0 (take n ?futs) ?s0")
  from collect_loop_counts [OF part] len
  have first: "int (recorded_outcomes sn) \<le> total_files (conversion_report sn)"
    by (simp add: start_conversion_fields)
  obtain s ex where full: "collect_loop pl (cancel_flag env) 0 ?futs ?s0 = (s, ex)"
    by (cases "collect_loop pl (cancel_flag env) 0 ?futs ?s0")
  note state = thread_state_of_loop [OF full]
  note exit = thread_exit_of_loop [OF full]
  from collect_loop_counts [OF full] len
  have total: "total_files (conversion_report s) = int (length docx_files)"
    and le: "recorded_outcomes s \<le> length docx_files"
    and eq: "ex = Loop_done \<Longrightarrow> recorded_outcomes s = length docx_files"
    by (simp_all add: start_conversion_fields)
  have "ex = Loop_done"
    if "snd (convert_and_zip_thread pl env docx_files ?s0) \<noteq> Cancelled"
      and "\<forall>exc. snd (convert_and_zip_thread pl env docx_files ?s0) \<noteq> Escaped exc"
    using that exit(1) exit(2) by (cases ex) auto
  with first part state total le eq show ?thesis by auto
qed

lemma sample_order: "mset [Suc 0, 0] = mset [0..<length [''a.docx'', ''b.docx'']]"
  by (simp add: upt_rec)

lemma sample_run:
  "convert_and_zip_thread sample_paths (sample_env [Suc 0, 0] sample_results)
      [''a.docx'', ''b.docx''] (start_conversion 1700000000 [''a.docx'', ''b.docx''])
   = (\<lparr>conversion_report =
         \<lparr>total_files = 2, successful_conversions = [''a.docx''],
          failed_conversions = [(''b.docx'', ''no output'')],
          retried_files = [(''a.docx'', 3)],
          start_time = Some 1700000000, end_time = Some 1700000090\<rparr>,
       completed_conversions = 2, pdf_files = [''tmp/a.pdf'']\<rparr>,
      Finished_ok)"
  by (simp add: convert_and_zip_thread_def futures_done_def sample_env_def sample_results_def
      start_conversion_def init_def record_result_def add_success_def add_failure_def
      add_retry_def set_end_time_def sample_paths_def Let_def)


theorem recorded_outcomes_within_total_witness:
  "mset [Suc 0, 0] = mset [0..<length [''a.docx'', ''b.docx'']]
   \<and> snd (convert_and_zip_thread sample_paths (sample_env [Suc 0, 0] sample_results)
        [''a.docx'', ''b.docx''] (start_conversion 1700000000 [''a.docx'', ''b.docx'']))
      = Finished_ok
   \<and> int (recorded_outcomes (fst (convert_and_zip_thread sample_paths
        (sample_env [Suc 0, 0] sample_results)
        [''a.docx'', ''b.docx''] (start_conversion 1700000000 [''a.docx'', ''b.docx'']))))
      = total_files (conversion_report (fst (convert_and_zip_thread sample_paths
        (sample_env [Suc 0, 0] sample_results)
        [''a.docx'', ''b.docx''] (start_conversion 1700000000 [''a.docx'', ''b.docx'']))))
   \<and> total_files (conversion_report (fst (convert_and_zip_thread sample_paths
        (sample_env [Suc 0, 0] sample_results)
        [''a.docx'', ''b.docx''] (start_conversion 1700000000 [''a.docx'', ''b.docx''])))) = 2"
proof -
  have order: "mset (completion_order (sample_env [Suc 0, 0] sample_results))
      = mset [0..<length [''a.docx'', ''b.docx'']]"
    using sample_order by (simp add: sample_env_def)
  from recorded_outcomes_within_total [OF order, of sample_paths 1 1700000000]
  have "snd (convert_and_zip_thread sample_paths (sample_env [Suc 0, 0] sample_results)
        [''a.docx'', ''b.docx''] (start_conversion 1700000000 [''a.docx'', ''b.docx'']))
          \<noteq> Cancelled
      \<and> (\<forall>exc. snd (convert_and_zip_thread sample_paths (sample_env [Suc 0, 0] sample_results)
        [''a.docx'', ''b.docx''] (start_conversion 1700000000 [''a.docx'', ''b.docx'']))
          \<noteq> Escaped exc)
      \<longrightarrow> int (recorded_outcomes (fst (convert_and_zip_thread sample_paths
        (sample_env [Suc 0, 0] sample_results)
        [''a.docx'', ''b.docx''] (start_conversion 1700000000 [''a.docx'', ''b.docx'']))))
      = total_files (conversion_report (fst (convert_and_zip_thread sample_paths
        (sample_env [Suc 0, 0] sample_results)
        [''a.docx'', ''b.docx''] (start_conversion 1700000000 [''a.docx'', ''b.docx'']))))"
    by blast
  then show ?thesis
    using sample_order by (simp add: sample_run)
qed



lemma sample_third_try:
  "convert_single_file sample_paths (sample_converter 3 False)
      (sample_world (\<lambda>k. if k = 1 then Timed_out else if k = 2 then Converted False
                          else Converted True) (\<lambda>k. Com_saved False)) ''a.docx'' ''tmp''
   = (Inr (Some ''tmp/a.pdf'', 3, None), [Docx2pdf 1, Sleep 3, Docx2pdf 2, Sleep 6, Docx2pdf 3])"
  by (simp add: convert_single_file_def sample_paths_def sample_world_def sample_converter_def
      upto.simps attempt_body_def try_docx2pdf_def)

lemma third_attempt_succeeds:
  assumes "max_retries c = 3"
    and "docx_exists w" and "docx_is_file w" and "temp_dir_exists w" and "convert_imported w"
    and "\<forall>j\<in>{1, 2}. primary_fails w j \<and>
           (fallback_invoked c w j \<longrightarrow> convert_with_win32 c (win32com w j) = Inr False)"
    and "docx2pdf w 3 = Converted True"
  shows "fst (convert_single_file pl c w src temp_dir) =
           Inr (Some (path_join pl temp_dir (path_stem pl src @ ''.pdf'')), 3, None)"
proof -
  let ?pdf = "path_join pl temp_dir (path_stem pl src @ ''.pdf'')"
  have split: "[1..3] = [1..3 - 1] @ 3 # [3 + 1..(3::int)]"
    by (rule upto_split3) simp_all
  have "set [1..3 - 1] = {1, 2::int}"
    by auto
  with assms(6)
  have "\<forall>j\<in>set [1..3 - 1]. \<exists>evs. attempt_body c w j = (Fall_through (attempt_error w j), evs)"
    by (auto intro: attempt_body_falls_through)
  from attempt_loop_skip [OF this, of ?pdf "3 # [3 + 1..3]" None "[]"]
  obtain last_error tr where "attempt_loop c w ?pdf [1..3] None [] =
      attempt_loop c w ?pdf (3 # [3 + 1..3]) last_error tr"
    using split by auto
  moreover have "fst (attempt_body c w 3) = Return_pdf"
    using assms(5) assms(7) by (simp add: attempt_body_def try_docx2pdf_def)
  ultimately have "fst (attempt_loop c w ?pdf [1..3] None []) = Inr (Some ?pdf, 3, None)"
    by (cases "attempt_body c w 3") simp
  with assms show ?thesis
    by (simp add: convert_single_file_def)
qed

text \<open>
  C6. After a batch run started by \<open>start_conversion\<close>, every entry of the report's
  retried sequence names a file that is also recorded as a success, with an attempt
  count above one. In particular, with \<open>max_retries = 3\<close> and a file whose first two
  attempts fail (no fallback resolving them) and whose third attempt succeeds,
  \<open>convert_single_file\<close> returns the PDF with \<open>attempts = 3\<close>, and the collection
  step appends the file's name to the successes and the entry \<open>(name, 3)\<close> to the
  retried sequence, leaving the failures as they were.
\<close>

theorem retried_only_for_successes:
  "(\<forall>(name, attempts)\<in>set (retried_files (conversion_report (fst (convert_and_zip_thread pl env
        docx_files (start_conversion now docx_files))))).
      name \<in> set (successful_conversions (conversion_report (fst (convert_and_zip_thread pl env
        docx_files (start_conversion now docx_files))))) \<and> 1 < attempts)
   \<and> (max_retries c = 3 \<and> docx_exists w \<and> docx_is_file w \<and> temp_dir_exists w
        \<and> convert_imported w
        \<and> (\<forall>j\<in>{1, 2}. primary_fails w j \<and>
              (fallback_invoked c w j \<longrightarrow> convert_with_win32 c (win32com w j) = Inr False))
        \<and> docx2pdf w 3 = Converted True
      \<longrightarrow> (\<exists>pdf s'. fst (convert_single_file pl c w src temp_dir) = Inr (Some pdf, 3, None)
            \<and> record_result pl src (Task_returned (Some pdf, 3, None)) s = Inr s'
            \<and> successful_conversions (conversion_report s')
                = successful_conversions (conversion_report s) @ [path_name pl src]
            \<and> retried_files (conversion_report s')
                = retried_files (conversion_report s) @ [(path_name pl src, 3)]
            \<and> failed_conversions (conversion_report s')
                = failed_conversions (conversion_report s)))"
proof -
  let ?s0 = "start_conversion now docx_files"
  obtain sl ex where full:
    "collect_loop pl (cancel_flag env) 0 (futures_done env docx_files) ?s0 = (sl, ex)"
    by (cases "collect_loop pl (cancel_flag env) 0 (futures_done env docx_files) ?s0")
  have "\<forall>(name, attempts)\<in>set (retried_files (conversion_report ?s0)).
      name \<in> set (successful_conversions (conversion_report ?s0)) \<and> 1 < attempts"
    by (simp add: start_conversion_fields)
  from collect_loop_retried [OF full this] thread_state_of_loop [OF full]
  have general: "\<forall>(name, attempts)\<in>set (retried_files (conversion_report
      (fst (convert_and_zip_thread pl env docx_files ?s0)))).
      name \<in> set (successful_conversions (conversion_report
        (fst (convert_and_zip_thread pl env docx_files ?s0)))) \<and> 1 < attempts"
    by simp
  have example: "\<exists>pdf s'. fst (convert_single_file pl c w src temp_dir) = Inr (Some pdf, 3, None)
      \<and> record_result pl src (Task_returned (Some pdf, 3, None)) s = Inr s'
      \<and> successful_conversions (conversion_report s')
          = successful_conversions (conversion_report s) @ [path_name pl src]
      \<and> retried_files (conversion_report s')
          = retried_files (conversion_report s) @ [(path_name pl src, 3)]
      \<and> failed_conversions (conversion_report s') = failed_conversions (conversion_report s)"
    if "max_retries c = 3" and "docx_exists w" and "docx_is_file w" and "temp_dir_exists w"
      and "convert_imported w"
      and "\<forall>j\<in>{1, 2}. primary_fails w j \<and>
           (fallback_invoked c w j \<longrightarrow> convert_with_win32 c (win32com w j) = Inr False)"
      and "docx2pdf w 3 = Converted True"
    using third_attempt_succeeds [OF that, of pl src temp_dir]
    by (simp add: record_result_def add_success_def add_retry_def Let_def)
  from general example show ?thesis by blast
qed

theorem retried_only_for_successes_witness:
  "fst (convert_single_file sample_paths (sample_converter 3 False)
      (sample_world (\<lambda>k. if k = 1 then Timed_out else if k = 2 then Converted False
                          else Converted True) (\<lambda>k. Com_saved False)) ''a.docx'' ''tmp'')
     = Inr (Some ''tmp/a.pdf'', 3, None)
   \<and> sample_results 0 = Task_returned (Some ''tmp/a.pdf'', 3, None)
   \<and> retried_files (conversion_report (fst (convert_and_zip_thread sample_paths
        (sample_env [Suc 0, 0] sample_results)
        [''a.docx'', ''b.docx''] (start_conversion 1700000000 [''a.docx'', ''b.docx'']))))
      = [(''a.docx'', 3)]
   \<and> successful_conversions (conversion_report (fst (convert_and_zip_thread sample_paths
        (sample_env [Suc 0, 0] sample_results)
        [''a.docx'', ''b.docx''] (start_conversion 1700000000 [''a.docx'', ''b.docx'']))))
      = [''a.docx'']"
proof -
  let ?w = "sample_world (\<lambda>k. if k = 1 then Timed_out else if k = 2 then Converted False
      else Converted True) (\<lambda>k. Com_saved False)"
  let ?c = "sample_converter 3 False"
  have hyps: "max_retries ?c = 3 \<and> docx_exists ?w \<and> docx_is_file ?w \<and> temp_dir_exists ?w
      \<and> convert_imported ?w
      \<and> (\<forall>j\<in>{1, 2}. primary_fails ?w j \<and>
            (fallback_invoked ?c ?w j \<longrightarrow> convert_with_win32 ?c (win32com ?w j) = Inr False))
      \<and> docx2pdf ?w 3 = Converted True"
    by (simp add: sample_converter_def sample_world_def primary_fails_def convert_with_win32_def)
  from retried_only_for_successes [of sample_paths "sample_env [Suc 0, 0] sample_results"
      "[''a.docx'', ''b.docx'']" 1700000000 ?c ?w "''a.docx''" "''tmp''"
      "start_conversion 1700000000 [''a.docx'', ''b.docx'']"] hyps
  have "\<exists>pdf. fst (convert_single_file sample_paths ?c ?w ''a.docx'' ''tmp'')
      = Inr (Some pdf, 3, None)"
    by blast
  then show ?thesis
    by (simp add: sample_third_try sample_run sample_results_def)
qed

section \<open>The rendered report\<close>

lemma label_total: "ljust 35 ''Total de fitxers processats:'' = ''Total de fitxers processats:       ''"
  by code_simp

lemma label_success:
  "ljust 35 (u_check @ '' Conversions exitoses:'') = u_check @ '' Conversions exitoses:            ''"
  by code_simp

lemma label_failed:
  "ljust 35 (u_cross @ '' Conversions fallides:'') = u_cross @ '' Conversions fallides:            ''"
  by code_simp

lemma label_retried:
  "ljust 35 (u_retry @ '' Fitxers amb reintents:'') = u_retry @ '' Fitxers amb reintents:           ''"
  by code_simp

lemma label_time:
  "ljust 35 (u_clock @ ''  Temps total:'') = u_clock @ ''  Temps total:                   ''"
  by code_simp

lemma str_int_digits: "str_int 0 = ''0''" "str_int 1 = ''1''" "str_int 2 = ''2''"
  by (simp_all add: str_int_def str_nat.simps digit_def)

lemma sample_empty_report:
  "report_lines sample_pct init =
     [sep,
      ''INFORME DE CONVERSI'' @ O_ACUTE @ '' DOCX '' @ u_arrow @ '' PDF'',
      sep,
      [],
      u_chart @ '' RESUM GENERAL'',
      sub,
      ''Total de fitxers processats:        1'',
      u_check @ '' Conversions exitoses:            0 (0.0%)'',
      u_cross @ '' Conversions fallides:            0 (0.0%)'',
      u_retry @ '' Fitxers amb reintents:           0'',
      u_clock @ ''  Temps total:                   0m 0s'',
      [],
      sep,
      full_success_line,
      sep]"
  by (simp add: report_lines_def summary_section_def retried_section_def converted_section_def
      failed_section_def verdict_section_def get_summary_def init_def sample_pct_def Let_def
      label_total label_success [simplified] label_failed [simplified]
      label_retried [simplified] label_time [simplified] str_int_digits)

lemma summary_section_length: "length (summary_section pct_1f r) = 12"
  by (simp add: summary_section_def Let_def)

lemma join_lines_append3:
  "xs \<noteq> [] \<Longrightarrow>
   join_lines (xs @ [a, b, c]) = join_lines xs @ CHR 0x0A # a @ CHR 0x0A # b @ CHR 0x0A # c"
proof (induction xs rule: join_lines.induct)
  case 1
  then show ?case by simp
next
  case (2 l)
  show ?case by simp
next
  case (3 l m ls)
  then show ?case by simp
qed

text \<open>
  C4. When \<open>total_files\<close> is zero, the two percentages are computed with the divisor
  1, and the line of the rendered report that displays the total shows that same 1:
  the source substitutes 1 for a zero total in the variable it then prints, so the
  declared total of 0 is not what the report displays.
\<close>

theorem zero_total_rendered_as_one:
  "total_files r = 0 \<Longrightarrow>
   report_lines pct_1f r ! 6 = ''Total de fitxers processats:        1''
   \<and> report_lines pct_1f r ! 7 =
       u_check @ '' Conversions exitoses:            ''
       @ str_int (int (length (successful_conversions r)))
       @ '' ('' @ pct_1f (int (length (successful_conversions r))) 1 @ ''%)''
   \<and> report_lines pct_1f r ! 8 =
       u_cross @ '' Conversions fallides:            ''
       @ str_int (int (length (failed_conversions r)))
       @ '' ('' @ pct_1f (int (length (failed_conversions r))) 1 @ ''%)''"
  by (simp add: report_lines_def nth_append summary_section_length)
    (simp add: summary_section_def get_summary_def Let_def label_total
      label_success [simplified] label_failed [simplified] str_int_digits)

theorem zero_total_rendered_as_one_witness:
  "total_files init = 0
   \<and> report_lines sample_pct init ! 6 = ''Total de fitxers processats:        1''
   \<and> report_lines sample_pct init ! 7 = u_check @ '' Conversions exitoses:            0 (0.0%)''
   \<and> report_lines sample_pct init ! 8 = u_cross @ '' Conversions fallides:            0 (0.0%)''"
proof -
  have zero: "total_files init = 0"
    by (simp add: init_def)
  from zero_total_rendered_as_one [OF zero, of sample_pct] zero show ?thesis
    by (simp add: init_def sample_pct_def str_int_digits)
qed

text \<open>
  C9, as the claim states it, fails: a report without any success and without any
  failure (the report as created) has zero successes, and its closing verdict is the
  full-success line, not the total-failure line.
\<close>

theorem empty_report_verdict_counterexample:
  "successful_conversions init = []
   \<and> failed_conversions init = []
   \<and> last (butlast (report_lines sample_pct init)) = full_success_line
   \<and> full_success_line \<noteq> total_failure_line"
  by (simp add: sample_empty_report)
    (simp add: init_def full_success_line_def total_failure_line_def)

text \<open>
  C9, amended. For every report state, the rendered report ends with a separator,
  the verdict line and a separator, and the verdict line is the full-success line
  when there are no failures, the partial-success line when there are some successes
  and some failures, and the total-failure line when there are zero successes and at
  least one failure.
\<close>

theorem closing_verdict_line:
  "\<exists>body verdict.
      report_lines pct_1f r = body @ [sep, verdict, sep]
    \<and> generate_detailed_report pct_1f r
        = join_lines body @ CHR 0x0A # sep @ CHR 0x0A # verdict @ CHR 0x0A # sep
    \<and> (failed_conversions r = [] \<longrightarrow> verdict = full_success_line)
    \<and> (successful_conversions r \<noteq> [] \<and> failed_conversions r \<noteq> []
         \<longrightarrow> verdict = partial_success_line)
    \<and> (successful_conversions r = [] \<and> failed_conversions r \<noteq> []
         \<longrightarrow> verdict = total_failure_line)"
proof -
  let ?body = "summary_section pct_1f r @ retried_section r @ converted_section r
      @ failed_section r"
  let ?verdict = "if failed_conversions r = [] then full_success_line
      else if successful_conversions r \<noteq> [] then partial_success_line
      else total_failure_line"
  have lines: "report_lines pct_1f r = ?body @ [sep, ?verdict, sep]"
    by (simp add: report_lines_def verdict_section_def get_summary_def Let_def)
  have "summary_section pct_1f r \<noteq> []"
    using summary_section_length [of pct_1f r] by auto
  then have "?body \<noteq> []"
    by simp
  from join_lines_append3 [OF this, of sep ?verdict sep] lines
  have "generate_detailed_report pct_1f r
      = join_lines ?body @ CHR 0x0A # sep @ CHR 0x0A # ?verdict @ CHR 0x0A # sep"
    by (simp only: generate_detailed_report_def)
  with lines show ?thesis
    by (intro exI [of _ ?body] exI [of _ ?verdict]) simp
qed

lemma sample_mixed_fields:
  "successful_conversions sample_mixed_report = [''a.docx'']"
  "failed_conversions sample_mixed_report = [(''b.docx'', ''no output'')]"
  by (simp_all add: sample_mixed_report_def add_success_def add_failure_def init_def)

theorem closing_verdict_line_witness:
  "successful_conversions sample_mixed_report \<noteq> []
   \<and> failed_conversions sample_mixed_report \<noteq> []
   \<and> last (butlast (report_lines sample_pct sample_mixed_report)) = partial_success_line
   \<and> last (report_lines sample_pct sample_mixed_report) = sep"
proof -
  from closing_verdict_line [of sample_pct sample_mixed_report]
  obtain body verdict where
    lines: "report_lines sample_pct sample_mixed_report = body @ [sep, verdict, sep]" and
    partial: "successful_conversions sample_mixed_report \<noteq> []
        \<and> failed_conversions sample_mixed_report \<noteq> [] \<longrightarrow> verdict = partial_success_line"
    by blast
  have both: "successful_conversions sample_mixed_report \<noteq> []
      \<and> failed_conversions sample_mixed_report \<noteq> []"
    by (simp add: sample_mixed_fields)
  with partial have "verdict = partial_success_line"
    by blast
  with lines both show ?thesis
    by (simp add: butlast_append)
qed

end
